theory Spec2Isabelle
  imports Main "HOL-Library.Char_ord" "HOL-Library.List_Lexorder" "HOL-Library.Product_Lexorder"
begin

section \<open>The data-access layer of app/crud.py\<close>

text \<open>
  The functions of \<^verbatim>\<open>app/crud.py\<close> run SQLAlchemy queries against six tables. Each
  function is embedded as a HOL function over an explicit store: a table is the list of
  its rows, a query is a list of joined rows, an exception is the left summand of the
  result, and a function that commits returns the store after the commit.
\<close>

subsection \<open>Dates\<close>

text \<open>
  A \<^verbatim>\<open>datetime.datetime\<close> value, to the second. The key of a value is the tuple of its
  fields, so that the lexicographic order of keys is the chronological order that SQL
  and Python use to compare two timestamps.
\<close>

record datetime =
  year :: nat
  month :: nat
  day :: nat
  hour :: nat
  minute :: nat
  second :: nat

definition dt_key :: "datetime \<Rightarrow> nat \<times> nat \<times> nat \<times> nat \<times> nat \<times> nat" where
  "dt_key d = (year d, month d, day d, hour d, minute d, second d)"

subsection \<open>Rows\<close>

text \<open>
  Modelled from the spec: the column declarations of \<^verbatim>\<open>app/models.py\<close> and the field
  declarations of \<^verbatim>\<open>app/schemas.py\<close> are not among the sources. The rows below carry the
  columns that \<^verbatim>\<open>app/crud.py\<close> reads and writes, named \<open>model_column\<close>. A primary key
  is an \<open>int\<close>. A foreign key is an \<open>int option\<close>, \<open>None\<close> being SQL's NULL: the
  spec calls the owning references required, and a store without NULLs is the special
  case in which every such column is \<open>Some\<close>. Textual columns are strings.
\<close>

record user =
  user_id :: int
  user_first_name :: string
  user_last_name :: string
  user_email :: string
  user_phone_number :: string
  user_username :: string
  user_role :: string
  user_temp_password :: string
  user_password :: string

record client =
  client_id :: int
  client_name :: string
  client_address :: string
  client_city :: string
  client_email :: string
  client_phone_number :: string
  client_contact :: string
  client_province :: string
  client_cap :: string
  client_date_created :: datetime

record plant =
  plant_id :: int
  plant_date_created :: datetime
  plant_name :: string
  plant_address :: string
  plant_province :: string
  plant_cap :: string
  plant_city :: string
  plant_email :: string
  plant_phone_number :: string
  plant_contact :: string
  plant_client_id :: "int option"

record machine =
  machine_id :: int
  machine_date_created :: datetime
  machine_name :: string
  machine_code :: string
  machine_brand :: string
  machine_model :: string
  machine_serial_number :: string
  machine_production_year :: string
  machine_cost_center :: string
  machine_description :: string
  machine_plant_id :: "int option"
  machine_robotic_island :: bool

record commission =
  commission_id :: int
  commission_date_created :: datetime
  commission_code :: string
  commission_description :: string
  commission_client_id :: "int option"
  commission_status :: string

record report =
  report_id :: int
  report_date :: datetime
  report_intervention_duration :: string
  report_intervention_type :: string
  report_type :: string
  report_intervention_location :: string
  report_work_id :: "int option"
  report_description :: string
  report_supervisor :: string
  report_notes :: string
  report_trip_kms :: string
  report_cost :: string
  report_operator_id :: "int option"
  report_date_created :: datetime

text \<open>\<^verbatim>\<open>schemas.ReportCreate\<close>: the fields a caller supplies for a report.\<close>

record report_create =
  rc_type :: string
  rc_date :: datetime
  rc_intervention_duration :: string
  rc_intervention_type :: string
  rc_intervention_location :: string
  rc_work_id :: "int option"
  rc_supervisor :: string
  rc_description :: string
  rc_notes :: string
  rc_trip_kms :: string
  rc_cost :: string

text \<open>The store behind a session: one list of rows per table.\<close>

record db =
  users :: "user list"
  clients :: "client list"
  plants :: "plant list"
  machines :: "machine list"
  commissions :: "commission list"
  reports :: "report list"

subsection \<open>Errors\<close>

text \<open>
  \<^verbatim>\<open>HTTPException(status_code, detail)\<close> and the built-in exceptions that the modelled
  functions can raise. The spec's error kinds are the status codes: 404 is NotFound,
  400 is Conflict, 403 is Forbidden.
\<close>

datatype error = HTTPException nat string | AttributeError | TypeError | ValueError

definition status_code :: "error \<Rightarrow> nat option" where
  "status_code e = (case e of HTTPException c d \<Rightarrow> Some c | _ \<Rightarrow> None)"

definition is_not_found :: "error \<Rightarrow> bool" where
  "is_not_found e = (status_code e = Some 404)"

definition is_conflict :: "error \<Rightarrow> bool" where
  "is_conflict e = (status_code e = Some 400)"

definition is_forbidden :: "error \<Rightarrow> bool" where
  "is_forbidden e = (status_code e = Some 403)"

subsection \<open>create_report\<close>

text \<open>
  \<^verbatim>\<open>create_report(db, report, user_id)\<close>. The two empty-string tests rewrite the input
  object, then one row is built from it and committed. \<open>now\<close> is the value of
  \<^verbatim>\<open>datetime.datetime.now()\<close> and \<open>new_id\<close> the primary key the store assigns to the
  row; the function returns the refreshed row and the store after the commit.
\<close>

definition normalize_report :: "report_create \<Rightarrow> report_create" where
  "normalize_report report =
     (let report = (if rc_trip_kms report = '''' then report\<lparr>rc_trip_kms := ''0.0''\<rparr> else report);
          report = (if rc_cost report = '''' then report\<lparr>rc_cost := ''0.0''\<rparr> else report)
      in report)"

definition create_report :: "db \<Rightarrow> report_create \<Rightarrow> int \<Rightarrow> datetime \<Rightarrow> int \<Rightarrow> report \<times> db" where
  "create_report s report uid now new_id =
     (let report = normalize_report report;
          db_report = \<lparr>report_id = new_id,
                       report_date = rc_date report,
                       report_intervention_duration = rc_intervention_duration report,
                       report_intervention_type = rc_intervention_type report,
                       report_type = rc_type report,
                       report_intervention_location = rc_intervention_location report,
                       report_work_id = rc_work_id report,
                       report_description = rc_description report,
                       report_supervisor = rc_supervisor report,
                       report_notes = rc_notes report,
                       report_trip_kms = rc_trip_kms report,
                       report_cost = rc_cost report,
                       report_operator_id = Some uid,
                       report_date_created = now\<rparr>
      in (db_report, s\<lparr>reports := reports s @ [db_report]\<rparr>))"

subsection \<open>SQL conditions and joins\<close>

text \<open>
  A condition of SQL has three values: true, false and unknown (\<open>None\<close>). A comparison
  with NULL is unknown, \<open>AND\<close> and \<open>OR\<close> follow Kleene's tables, and a row passes an
  \<open>ON\<close> or \<open>WHERE\<close> clause only where the condition is true.
\<close>

definition sql_eq :: "'a option \<Rightarrow> 'a option \<Rightarrow> bool option" where
  "sql_eq a b = (case a of None \<Rightarrow> None | Some x \<Rightarrow> (case b of None \<Rightarrow> None | Some y \<Rightarrow> Some (x = y)))"

definition sql_and :: "bool option \<Rightarrow> bool option \<Rightarrow> bool option" where
  "sql_and a b =
     (if a = Some False \<or> b = Some False then Some False
      else if a = Some True \<and> b = Some True then Some True else None)"

definition sql_or :: "bool option \<Rightarrow> bool option \<Rightarrow> bool option" where
  "sql_or a b =
     (if a = Some True \<or> b = Some True then Some True
      else if a = Some False \<and> b = Some False then Some False else None)"

definition is_true :: "bool option \<Rightarrow> bool" where
  "is_true c = (c = Some True)"

text \<open>
  \<^verbatim>\<open>Column == value\<close> with a Python value: SQLAlchemy renders \<^verbatim>\<open>column IS NULL\<close> for
  \<^verbatim>\<open>None\<close> and \<^verbatim>\<open>column = value\<close> otherwise.
\<close>

definition eq_param :: "'a option \<Rightarrow> 'a option \<Rightarrow> bool option" where
  "eq_param c v = (case v of None \<Rightarrow> Some (c = None) | Some x \<Rightarrow> sql_eq c (Some x))"

text \<open>
  A column of an outer-joined table: NULL where the join found no row. \<open>col\<close> reads a
  nullable column, \<open>key\<close> a column that is never NULL in its own table.
\<close>

definition col :: "('r \<Rightarrow> 'a option) \<Rightarrow> 'r option \<Rightarrow> 'a option" where
  "col f row = (case row of None \<Rightarrow> None | Some x \<Rightarrow> f x)"

definition key :: "('r \<Rightarrow> 'a) \<Rightarrow> 'r option \<Rightarrow> 'a option" where
  "key f row = (case row of None \<Rightarrow> None | Some x \<Rightarrow> Some (f x))"

text \<open>
  \<^verbatim>\<open>.join(T, on)\<close> pairs every row on the left with every row of \<open>T\<close> for which the
  condition is true; \<^verbatim>\<open>.outerjoin(T, on)\<close> also keeps a left row that has no partner,
  paired with NULLs.
\<close>

definition inner_join :: "'a list \<Rightarrow> 'b list \<Rightarrow> ('a \<Rightarrow> 'b \<Rightarrow> bool option) \<Rightarrow> ('a \<times> 'b) list" where
  "inner_join ls rs on = concat (map (\<lambda>l. map (Pair l) (filter (\<lambda>r. is_true (on l r)) rs)) ls)"

definition outer_join :: "'a list \<Rightarrow> 'b list \<Rightarrow> ('a \<Rightarrow> 'b \<Rightarrow> bool option) \<Rightarrow> ('a \<times> 'b option) list" where
  "outer_join ls rs on =
     concat (map (\<lambda>l. case filter (\<lambda>r. is_true (on l r)) rs of
                          [] \<Rightarrow> [(l, None)]
                        | m # ms \<Rightarrow> map (\<lambda>r. (l, Some r)) (m # ms)) ls)"

text \<open>Python's truth value of an \<^verbatim>\<open>Optional[int]\<close>: \<^verbatim>\<open>None\<close> and \<^verbatim>\<open>0\<close> are false.\<close>

definition truthy :: "int option \<Rightarrow> bool" where
  "truthy v = (case v of None \<Rightarrow> False | Some n \<Rightarrow> n \<noteq> 0)"

subsection \<open>get_reports\<close>

text \<open>The labelled columns of one result row of \<^verbatim>\<open>get_reports\<close>.\<close>

record report_row =
  rr_report :: report
  rr_commission_id :: "int option"
  rr_commission_code :: "string option"
  rr_machine_id :: "int option"
  rr_machine_name :: "string option"
  rr_operator_id :: int
  rr_first_name :: string
  rr_last_name :: string
  rr_client_id :: int
  rr_client_name :: string

text \<open>
  The joins of \<^verbatim>\<open>get_reports\<close> in the order of the source: Commission (outer), Machine
  (outer), User (inner), Plant (outer), Client (inner, on the disjunction).
\<close>

definition reports_joined ::
  "db \<Rightarrow> (((((report \<times> commission option) \<times> machine option) \<times> user) \<times> plant option) \<times> client) list" where
  "reports_joined s =
     (let q = outer_join (reports s) (commissions s)
                (\<lambda>r c. sql_and (Some (report_type r = ''commission''))
                                (sql_eq (report_work_id r) (Some (commission_id c))));
          q = outer_join q (machines s)
                (\<lambda>(r, c) m. sql_and (Some (report_type r = ''machine''))
                                     (sql_eq (report_work_id r) (Some (machine_id m))));
          q = inner_join q (users s)
                (\<lambda>((r, c), m) u. sql_eq (report_operator_id r) (Some (user_id u)));
          q = outer_join q (plants s)
                (\<lambda>(((r, c), m), u) p. sql_and (Some (report_type r = ''machine''))
                                               (sql_eq (col machine_plant_id m) (Some (plant_id p))));
          q = inner_join q (clients s)
                (\<lambda>((((r, c), m), u), p) cl.
                    sql_or (sql_eq (col commission_client_id c) (Some (client_id cl)))
                           (sql_and (sql_eq (col plant_client_id p) (Some (client_id cl)))
                                    (Some (report_type r = ''machine''))))
      in q)"

definition report_columns ::
  "((((report \<times> commission option) \<times> machine option) \<times> user) \<times> plant option) \<times> client \<Rightarrow> report_row" where
  "report_columns row =
     (case row of (((((r, c), m), u), p), cl) \<Rightarrow>
        \<lparr>rr_report = r,
         rr_commission_id = key commission_id c,
         rr_commission_code = key commission_code c,
         rr_machine_id = key machine_id m,
         rr_machine_name = key machine_name m,
         rr_operator_id = user_id u,
         rr_first_name = user_first_name u,
         rr_last_name = user_last_name u,
         rr_client_id = client_id cl,
         rr_client_name = client_name cl\<rparr>)"

text \<open>
  \<^verbatim>\<open>get_reports(db, user_id)\<close>. \<^verbatim>\<open>ORDER BY date DESC\<close> is a sort on the date, newest
  first; SQL leaves the order of rows with equal dates open, and the model fixes one.
\<close>

definition get_reports :: "db \<Rightarrow> int option \<Rightarrow> report_row list" where
  "get_reports s uid =
     (let query = map report_columns (reports_joined s);
          query = (if truthy uid
                   then filter (\<lambda>row. is_true (eq_param (report_operator_id (rr_report row)) uid)) query
                   else query)
      in rev (sort_key (\<lambda>row. dt_key (report_date (rr_report row))) query))"

subsection \<open>get_months\<close>

text \<open>
  \<^verbatim>\<open>strftime(date, "%m/%Y")\<close>: the month in two digits, a slash, the year in four digits
  (the form of every year from 1000 to 9999).
\<close>

definition digit :: "nat \<Rightarrow> char" where
  "digit n = ''0123456789'' ! (n mod 10)"

definition strftime_mY :: "datetime \<Rightarrow> string" where
  "strftime_mY d =
     [digit (month d div 10), digit (month d), CHR ''/'',
      digit (year d div 1000), digit (year d div 100), digit (year d div 10), digit (year d)]"

text \<open>
  \<^verbatim>\<open>get_months(db, user_id, work_id)\<close>: the distinct dates of the filtered reports in
  ascending order (\<^verbatim>\<open>GROUP BY date ORDER BY date\<close>), formatted, passed through
  \<^verbatim>\<open>set\<close> and \<^verbatim>\<open>sorted\<close>. Python sorts strings by code point, which on lists of
  characters is the lexicographic order of \<open>List_Lexorder\<close> over \<open>Char_ord\<close>.
\<close>

definition get_months :: "db \<Rightarrow> int option \<Rightarrow> int option \<Rightarrow> string list" where
  "get_months s uid wid =
     (let query = reports s;
          query = (if truthy uid
                   then filter (\<lambda>r. is_true (eq_param (report_operator_id r) uid)) query else query);
          query = (if truthy wid
                   then filter (\<lambda>r. is_true (eq_param (report_work_id r) wid)) query else query);
          dates = sort_key dt_key (remdups (map report_date query))
      in sorted_list_of_set (set (map strftime_mY dates)))"

subsection \<open>get_reports_in_interval\<close>

text \<open>
  \<^verbatim>\<open>datetime.datetime.strptime(s, "%Y-%m-%d")\<close> on ASCII input, after the library's
  pattern for this format: four digits, a hyphen, a month (\<open>1[0-2]\<close>, \<open>0[1-9]\<close> or
  \<open>[1-9]\<close>), a hyphen, a day (\<open>3[01]\<close>, \<open>[12]\<close> and a digit, \<open>0[1-9]\<close>, \<open>[1-9]\<close>, or
  a blank and \<open>[1-9]\<close>) and nothing after it; the year is at least 1 and the day exists in
  the month. Anything else raises \<^verbatim>\<open>ValueError\<close>. The time of the result is midnight.
\<close>

definition is_digit :: "char \<Rightarrow> bool" where
  "is_digit c = (c \<in> set ''0123456789'')"

definition digit_val :: "char \<Rightarrow> nat" where
  "digit_val c = of_char c - 48"

fun parse_month :: "string \<Rightarrow> nat option" where
  "parse_month [a] = (if is_digit a \<and> a \<noteq> CHR ''0'' then Some (digit_val a) else None)"
| "parse_month [a, b] =
     (if a = CHR ''1'' \<and> b \<in> set ''012'' then Some (10 + digit_val b)
      else if a = CHR ''0'' \<and> is_digit b \<and> b \<noteq> CHR ''0'' then Some (digit_val b)
      else None)"
| "parse_month _ = None"

fun parse_day :: "string \<Rightarrow> nat option" where
  "parse_day [a] = (if is_digit a \<and> a \<noteq> CHR ''0'' then Some (digit_val a) else None)"
| "parse_day [a, b] =
     (if a = CHR ''3'' \<and> b \<in> set ''01'' then Some (30 + digit_val b)
      else if a \<in> set ''12'' \<and> is_digit b then Some (10 * digit_val a + digit_val b)
      else if a \<in> set ''0 '' \<and> is_digit b \<and> b \<noteq> CHR ''0'' then Some (digit_val b)
      else None)"
| "parse_day _ = None"

definition is_leap :: "nat \<Rightarrow> bool" where
  "is_leap y = (y mod 4 = 0 \<and> (y mod 100 \<noteq> 0 \<or> y mod 400 = 0))"

definition days_in_month :: "nat \<Rightarrow> nat \<Rightarrow> nat" where
  "days_in_month y m =
     (if m = 2 then (if is_leap y then 29 else 28)
      else if m \<in> {4, 6, 9, 11} then 30 else 31)"

definition make_date :: "nat \<Rightarrow> nat option \<Rightarrow> nat option \<Rightarrow> error + datetime" where
  "make_date y mo do =
     (case mo of None \<Rightarrow> Inl ValueError
      | Some m \<Rightarrow>
         (case do of None \<Rightarrow> Inl ValueError
          | Some d \<Rightarrow>
             if 1 \<le> y \<and> d \<le> days_in_month y m
             then Inr \<lparr>year = y, month = m, day = d, hour = 0, minute = 0, second = 0\<rparr>
             else Inl ValueError))"

fun strptime_Ymd :: "string \<Rightarrow> error + datetime" where
  "strptime_Ymd (y1 # y2 # y3 # y4 # h # rest) =
     (if is_digit y1 \<and> is_digit y2 \<and> is_digit y3 \<and> is_digit y4 \<and> h = CHR ''-''
      then
        (let y = 1000 * digit_val y1 + 100 * digit_val y2 + 10 * digit_val y3 + digit_val y4
         in case rest of
              a # b # c # ds \<Rightarrow>
                if b = CHR ''-'' then make_date y (parse_month [a]) (parse_day (c # ds))
                else if c = CHR ''-'' then make_date y (parse_month [a, b]) (parse_day ds)
                else Inl ValueError
            | _ \<Rightarrow> Inl ValueError)
      else Inl ValueError)"
| "strptime_Ymd _ = Inl ValueError"

text \<open>An \<^verbatim>\<open>Optional[str]\<close> argument handed to \<^verbatim>\<open>strptime\<close>: \<^verbatim>\<open>None\<close> raises \<^verbatim>\<open>TypeError\<close>.\<close>

definition strptime_arg :: "string option \<Rightarrow> error + datetime" where
  "strptime_arg v = (case v of None \<Rightarrow> Inl TypeError | Some str \<Rightarrow> strptime_Ymd str)"

text \<open>The labelled columns of one result row of \<^verbatim>\<open>get_reports_in_interval\<close>.\<close>

record interval_row =
  ir_report :: report
  ir_commission_description :: string
  ir_commission_code :: string
  ir_client_name :: string
  ir_first_name :: string
  ir_last_name :: string

text \<open>The three inner joins of the query: Commission on the work reference, Client, User.\<close>

definition interval_joined :: "db \<Rightarrow> (((report \<times> commission) \<times> client) \<times> user) list" where
  "interval_joined s =
     (let q = inner_join (reports s) (commissions s)
                (\<lambda>r c. sql_eq (report_work_id r) (Some (commission_id c)));
          q = inner_join q (clients s)
                (\<lambda>(r, c) cl. sql_eq (commission_client_id c) (Some (client_id cl)));
          q = inner_join q (users s)
                (\<lambda>((r, c), cl) u. sql_eq (report_operator_id r) (Some (user_id u)))
      in q)"

definition interval_columns :: "((report \<times> commission) \<times> client) \<times> user \<Rightarrow> interval_row" where
  "interval_columns row =
     (case row of (((r, c), cl), u) \<Rightarrow>
        \<lparr>ir_report = r,
         ir_commission_description = commission_description c,
         ir_commission_code = commission_code c,
         ir_client_name = client_name cl,
         ir_first_name = user_first_name u,
         ir_last_name = user_last_name u\<rparr>)"

text \<open>
  \<^verbatim>\<open>get_reports_in_interval(db, start_date, end_date, work_id, operator_id)\<close>. The tests
  are the source's: \<^verbatim>\<open>work_id != 0\<close>, \<^verbatim>\<open>operator_id != 0\<close>, \<^verbatim>\<open>start_date != ''\<close>,
  \<^verbatim>\<open>end_date != ''\<close>, each true of \<^verbatim>\<open>None\<close>. The dates are parsed while the query is
  built, \<open>start_date\<close> first, and the query runs only at \<^verbatim>\<open>.all()\<close>.
\<close>

definition date_ge :: "datetime \<Rightarrow> interval_row \<Rightarrow> bool" where
  "date_ge d row = (dt_key d \<le> dt_key (report_date (ir_report row)))"

definition date_le :: "datetime \<Rightarrow> interval_row \<Rightarrow> bool" where
  "date_le d row = (dt_key (report_date (ir_report row)) \<le> dt_key d)"

definition get_reports_in_interval ::
  "db \<Rightarrow> string option \<Rightarrow> string option \<Rightarrow> int option \<Rightarrow> int option \<Rightarrow> error + interval_row list" where
  "get_reports_in_interval s start_date end_date wid oid =
     (let query = map interval_columns (interval_joined s);
          query = (if wid \<noteq> Some 0
                   then filter (\<lambda>row. is_true (eq_param (report_work_id (ir_report row)) wid)) query
                   else query);
          query = (if oid \<noteq> Some 0
                   then filter (\<lambda>row. is_true (eq_param (report_operator_id (ir_report row)) oid)) query
                   else query)
      in if start_date \<noteq> Some [] \<and> end_date \<noteq> Some []
         then (case strptime_arg start_date of Inl e \<Rightarrow> Inl e
               | Inr start_date_dt \<Rightarrow>
                  (case strptime_arg end_date of Inl e \<Rightarrow> Inl e
                   | Inr end_date_dt \<Rightarrow>
                      Inr (filter (\<lambda>row. date_ge start_date_dt row \<and> date_le end_date_dt row) query)))
         else (case (if start_date \<noteq> Some []
                     then (case strptime_arg start_date of Inl e \<Rightarrow> Inl e
                           | Inr start_date_dt \<Rightarrow> Inr (filter (date_ge start_date_dt) query))
                     else Inr query) of
                 Inl e \<Rightarrow> Inl e
               | Inr query \<Rightarrow>
                  if end_date \<noteq> Some []
                  then (case strptime_arg end_date of Inl e \<Rightarrow> Inl e
                        | Inr end_date_dt \<Rightarrow> Inr (filter (date_le end_date_dt) query))
                  else Inr query))"

subsection \<open>edit_report\<close>

text \<open>
  \<^verbatim>\<open>edit_report(db, report_id, report, user_id)\<close>. The twelve assignments to the loaded
  row, written back by the commit to the row of that primary key. Where no row has the
  key the function returns the pair \<^verbatim>\<open>({"detail": "Errore"}, 400)\<close> and raises nothing.
\<close>

datatype edit_result = Edited report | Failure string nat

definition assign_report :: "report_create \<Rightarrow> int \<Rightarrow> report \<Rightarrow> report" where
  "assign_report report uid db_report =
     db_report\<lparr>report_type := rc_type report,
               report_date := rc_date report,
               report_intervention_duration := rc_intervention_duration report,
               report_intervention_type := rc_intervention_type report,
               report_intervention_location := rc_intervention_location report,
               report_work_id := rc_work_id report,
               report_supervisor := rc_supervisor report,
               report_description := rc_description report,
               report_notes := rc_notes report,
               report_trip_kms := rc_trip_kms report,
               report_cost := rc_cost report,
               report_operator_id := Some uid\<rparr>"

definition edit_report :: "db \<Rightarrow> int \<Rightarrow> report_create \<Rightarrow> int \<Rightarrow> edit_result \<times> db" where
  "edit_report s rid report uid =
     (case find (\<lambda>r. report_id r = rid) (reports s) of
        Some db_report \<Rightarrow>
          (Edited (assign_report report uid db_report),
           s\<lparr>reports := map (\<lambda>r. if report_id r = rid then assign_report report uid r else r) (reports s)\<rparr>)
      | None \<Rightarrow> (Failure ''Errore'' 400, s))"

text \<open>\<^verbatim>\<open>db.query(models.Report).filter(models.Report.id == report_id).first()\<close>.\<close>

definition get_report_row :: "db \<Rightarrow> int \<Rightarrow> report option" where
  "get_report_row s rid = find (\<lambda>r. report_id r = rid) (reports s)"

subsection \<open>The delete operations\<close>

text \<open>
  Each function returns the raised exception or the \<^verbatim>\<open>detail\<close> of its answer, and the
  store: unchanged where the function raises, without the row where it commits.

  \<^verbatim>\<open>delete_user(db, user_id, current_user_id)\<close>. The test reads \<^verbatim>\<open>user.role\<close> only where
  the two comparisons of ids are false (\<^verbatim>\<open>or\<close> stops at the first true operand); on a
  missing row the read raises \<^verbatim>\<open>AttributeError\<close>.
\<close>

definition delete_user :: "db \<Rightarrow> int \<Rightarrow> int \<Rightarrow> (error + string) \<times> db" where
  "delete_user s uid current_user_id =
     (let usr = find (\<lambda>u. user_id u = uid) (users s);
          test = (if uid = 1 \<or> uid = current_user_id then Inr True
                  else (case usr of None \<Rightarrow> Inl AttributeError
                        | Some u \<Rightarrow> Inr (user_role u = ''admin'')))
      in case test of
           Inl e \<Rightarrow> (Inl e, s)
         | Inr True \<Rightarrow> (Inl (HTTPException 403 ''Non puoi eliminare questo utente''), s)
         | Inr False \<Rightarrow>
            (case usr of
               None \<Rightarrow> (Inl (HTTPException 404 ''Utente non trovato''), s)
             | Some u \<Rightarrow> (Inr ''Utente eliminato'',
                          s\<lparr>users := filter (\<lambda>u. user_id u \<noteq> uid) (users s)\<rparr>)))"

definition delete_client :: "db \<Rightarrow> int \<Rightarrow> (error + string) \<times> db" where
  "delete_client s cid =
     (let cl = find (\<lambda>c. client_id c = cid) (clients s);
          exists = find (\<lambda>c. is_true (eq_param (commission_client_id c) (Some cid))) (commissions s)
      in if cl = None then (Inl (HTTPException 404 ''Cliente non trovato''), s)
         else if exists \<noteq> None then (Inl (HTTPException 400 ''Non puoi eliminare questo cliente''), s)
         else (Inr ''Cliente eliminato'', s\<lparr>clients := filter (\<lambda>c. client_id c \<noteq> cid) (clients s)\<rparr>))"

definition delete_commission :: "db \<Rightarrow> int \<Rightarrow> (error + string) \<times> db" where
  "delete_commission s cid =
     (let com = find (\<lambda>c. commission_id c = cid) (commissions s);
          exists = find (\<lambda>r. report_type r = ''commission'')
                     (filter (\<lambda>r. is_true (eq_param (report_work_id r) (Some cid))) (reports s))
      in if com = None then (Inl (HTTPException 404 ''Commessa non trovata''), s)
         else if exists \<noteq> None then (Inl (HTTPException 400 ''Non puoi eliminare questa commessa''), s)
         else (Inr ''Commessa eliminata'',
               s\<lparr>commissions := filter (\<lambda>c. commission_id c \<noteq> cid) (commissions s)\<rparr>))"

definition delete_machine :: "db \<Rightarrow> int \<Rightarrow> (error + string) \<times> db" where
  "delete_machine s mid =
     (let mach = find (\<lambda>m. machine_id m = mid) (machines s);
          exists = find (\<lambda>r. report_type r = ''machine'')
                     (filter (\<lambda>r. is_true (eq_param (report_work_id r) (Some mid))) (reports s))
      in if mach = None then (Inl (HTTPException 404 ''Macchina non trovata''), s)
         else if exists \<noteq> None then (Inl (HTTPException 400 ''Non puoi eliminare questa macchina''), s)
         else (Inr ''Macchina eliminata'',
               s\<lparr>machines := filter (\<lambda>m. machine_id m \<noteq> mid) (machines s)\<rparr>))"

definition delete_plant :: "db \<Rightarrow> int \<Rightarrow> (error + string) \<times> db" where
  "delete_plant s pid =
     (let pl = find (\<lambda>p. plant_id p = pid) (plants s)
      in if pl = None then (Inl (HTTPException 404 ''Stabilimento non trovato''), s)
         else (let exists = find (\<lambda>m. is_true (eq_param (machine_plant_id m) (Some pid))) (machines s)
               in if exists \<noteq> None
                  then (Inl (HTTPException 400 ''Non puoi eliminare questo stabilimento''), s)
                  else (Inr ''Plant deleted'', s\<lparr>plants := filter (\<lambda>p. plant_id p \<noteq> pid) (plants s)\<rparr>)))"

subsection \<open>Example stores\<close>

text \<open>Rows and stores on which the operations are evaluated below.\<close>

definition at_midnight :: "nat \<Rightarrow> nat \<Rightarrow> nat \<Rightarrow> datetime" where
  "at_midnight y m d = \<lparr>year = y, month = m, day = d, hour = 0, minute = 0, second = 0\<rparr>"

definition mk_user :: "int \<Rightarrow> string \<Rightarrow> user" where
  "mk_user i role =
     \<lparr>user_id = i, user_first_name = ''Ada'', user_last_name = ''Rossi'',
      user_email = ''ada@example.org'', user_phone_number = ''0'', user_username = ''ada'',
      user_role = role, user_temp_password = ''t'', user_password = ''h''\<rparr>"

definition mk_client :: "int \<Rightarrow> string \<Rightarrow> client" where
  "mk_client i name =
     \<lparr>client_id = i, client_name = name, client_address = ''a'', client_city = ''c'',
      client_email = ''e'', client_phone_number = ''0'', client_contact = ''k'',
      client_province = ''p'', client_cap = ''0'', client_date_created = at_midnight 2020 1 1\<rparr>"

definition mk_plant :: "int \<Rightarrow> int option \<Rightarrow> plant" where
  "mk_plant i cid =
     \<lparr>plant_id = i, plant_date_created = at_midnight 2020 1 1, plant_name = ''plant'',
      plant_address = ''a'', plant_province = ''p'', plant_cap = ''0'', plant_city = ''c'',
      plant_email = ''e'', plant_phone_number = ''0'', plant_contact = ''k'',
      plant_client_id = cid\<rparr>"

definition mk_machine :: "int \<Rightarrow> int option \<Rightarrow> machine" where
  "mk_machine i pid =
     \<lparr>machine_id = i, machine_date_created = at_midnight 2020 1 1, machine_name = ''press'',
      machine_code = ''m'', machine_brand = ''b'', machine_model = ''x'',
      machine_serial_number = ''1'', machine_production_year = ''2000'',
      machine_cost_center = ''cc'', machine_description = ''d'', machine_plant_id = pid,
      machine_robotic_island = False\<rparr>"

definition mk_commission :: "int \<Rightarrow> int option \<Rightarrow> commission" where
  "mk_commission i cid =
     \<lparr>commission_id = i, commission_date_created = at_midnight 2020 1 1,
      commission_code = ''C-1'', commission_description = ''d'',
      commission_client_id = cid, commission_status = ''on''\<rparr>"

definition mk_report :: "int \<Rightarrow> string \<Rightarrow> int option \<Rightarrow> int option \<Rightarrow> datetime \<Rightarrow> report" where
  "mk_report i ty wid oid d =
     \<lparr>report_id = i, report_date = d, report_intervention_duration = ''1'',
      report_intervention_type = ''t'', report_type = ty,
      report_intervention_location = ''l'', report_work_id = wid, report_description = ''d'',
      report_supervisor = ''s'', report_notes = ''n'', report_trip_kms = ''3.5'',
      report_cost = ''9.0'', report_operator_id = oid,
      report_date_created = at_midnight 2020 1 1\<rparr>"

definition mk_report_create :: "string \<Rightarrow> string \<Rightarrow> report_create" where
  "mk_report_create kms cost =
     \<lparr>rc_type = ''commission'', rc_date = at_midnight 2024 5 6, rc_intervention_duration = ''2'',
      rc_intervention_type = ''t'', rc_intervention_location = ''l'', rc_work_id = Some 1,
      rc_supervisor = ''s'', rc_description = ''d'', rc_notes = ''n'',
      rc_trip_kms = kms, rc_cost = cost\<rparr>"

definition empty_db :: db where
  "empty_db = \<lparr>users = [], clients = [], plants = [], machines = [], commissions = [], reports = []\<rparr>"

text \<open>
  A store with one client, its plant 4 and machine 3; machine 8, whose plant 99 has no
  row; machine 9 in plant 5, whose client 70 has no row; and a machine-typed report on
  each of the three machines.
\<close>

definition machines_db :: db where
  "machines_db =
     \<lparr>users = [mk_user 2 ''user''],
      clients = [mk_client 7 ''Acme''],
      plants = [mk_plant 4 (Some 7), mk_plant 5 (Some 70)],
      machines = [mk_machine 3 (Some 4), mk_machine 8 (Some 99), mk_machine 9 (Some 5)],
      commissions = [],
      reports = [mk_report 1 ''machine'' (Some 3) (Some 2) (at_midnight 2024 1 10),
                 mk_report 2 ''machine'' (Some 8) (Some 2) (at_midnight 2024 2 10),
                 mk_report 3 ''machine'' (Some 9) (Some 2) (at_midnight 2024 3 10)]\<rparr>"

text \<open>
  A store with one commission of id 1 and one machine of id 1, and a single report, of
  type machine, on that machine.
\<close>

definition shared_id_db :: db where
  "shared_id_db =
     \<lparr>users = [mk_user 2 ''user''],
      clients = [mk_client 7 ''Acme''],
      plants = [mk_plant 4 (Some 7)],
      machines = [mk_machine 1 (Some 4)],
      commissions = [mk_commission 1 (Some 7)],
      reports = [mk_report 5 ''machine'' (Some 1) (Some 2) (at_midnight 2024 3 1)]\<rparr>"

text \<open>A client that owns a plant and no commission.\<close>

definition plant_owner_db :: db where
  "plant_owner_db =
     \<lparr>users = [], clients = [mk_client 7 ''Acme''], plants = [mk_plant 4 (Some 7)],
      machines = [], commissions = [], reports = []\<rparr>"

text \<open>Users 1 (admin), 2 (user) and 3 (admin); no user 9.\<close>

definition users_db :: db where
  "users_db = empty_db\<lparr>users := [mk_user 1 ''admin'', mk_user 2 ''user'', mk_user 3 ''admin'']\<rparr>"

text \<open>Reports of February 2023 (two of them) and January 2024.\<close>

definition months_db :: db where
  "months_db =
     empty_db\<lparr>reports := [mk_report 1 ''commission'' (Some 1) (Some 2) (at_midnight 2023 2 3),
                          mk_report 2 ''commission'' (Some 1) (Some 2) (at_midnight 2024 1 9),
                          mk_report 3 ''machine'' (Some 1) (Some 2) (at_midnight 2023 2 20)]\<rparr>"

text \<open>
  A commission-typed and a machine-typed report of operator 2 with the same work
  reference 5, a report with another work reference, and a report of operator 3.
\<close>

definition mixed_db :: db where
  "mixed_db =
     empty_db\<lparr>reports := [mk_report 1 ''commission'' (Some 5) (Some 2) (at_midnight 2024 3 3),
                          mk_report 2 ''machine'' (Some 5) (Some 2) (at_midnight 2024 7 9),
                          mk_report 3 ''machine'' (Some 6) (Some 2) (at_midnight 2024 11 9),
                          mk_report 4 ''commission'' (Some 5) (Some 3) (at_midnight 2024 12 1)]\<rparr>"

text \<open>A report of user 2, edited by user 9.\<close>

definition edit_db :: db where
  "edit_db =
     empty_db\<lparr>reports := [mk_report 1 ''machine'' (Some 5) (Some 2) (at_midnight 2024 3 3),
                          mk_report 2 ''machine'' (Some 5) (Some 2) (at_midnight 2024 7 9)]\<rparr>"

text \<open>\<open>retype f s\<close> is the store \<open>s\<close> with the type of every report \<open>r\<close> replaced by \<open>f r\<close>.\<close>

definition retype :: "(report \<Rightarrow> string) \<Rightarrow> db \<Rightarrow> db" where
  "retype f s = s\<lparr>reports := map (\<lambda>r. r\<lparr>report_type := f r\<rparr>) (reports s)\<rparr>"

section \<open>Properties\<close>

subsection \<open>create_report\<close>

text \<open>
  Claim C7. Whatever the input, the row that \<open>create_report\<close> persists (the last row of
  the report table after the commit, which is also the row returned) has \<open>trip_kms\<close>
  equal to \<open>"0.0"\<close> where the input's \<open>trip_kms\<close> is the empty string and equal to the
  input's value otherwise, and likewise for \<open>cost\<close>.
\<close>
theorem create_report_normalizes:
  "report_trip_kms (fst (create_report s report uid now new_id)) =
     (if rc_trip_kms report = [] then ''0.0'' else rc_trip_kms report) \<and>
   report_cost (fst (create_report s report uid now new_id)) =
     (if rc_cost report = [] then ''0.0'' else rc_cost report) \<and>
   reports (snd (create_report s report uid now new_id)) =
     reports s @ [fst (create_report s report uid now new_id)]"
  by (simp add: create_report_def normalize_report_def Let_def)

theorem create_report_normalizes_witness:
  "report_trip_kms (last (reports (snd (create_report empty_db (mk_report_create [] ''12.5'') 2 (at_midnight 2024 5 7) 1)))) = ''0.0'' \<and>
   report_cost (last (reports (snd (create_report empty_db (mk_report_create [] ''12.5'') 2 (at_midnight 2024 5 7) 1)))) = ''12.5'' \<and>
   report_cost (last (reports (snd (create_report empty_db (mk_report_create ''40'' []) 2 (at_midnight 2024 5 7) 1)))) = ''0.0'' \<and>
   report_trip_kms (last (reports (snd (create_report empty_db (mk_report_create ''40'' []) 2 (at_midnight 2024 5 7) 1)))) = ''40''"
  using create_report_normalizes [of empty_db "mk_report_create [] ''12.5''" 2 "at_midnight 2024 5 7" 1]
        create_report_normalizes [of empty_db "mk_report_create ''40'' []" 2 "at_midnight 2024 5 7" 1]
  by (simp add: mk_report_create_def)

subsection \<open>edit_report\<close>

lemma report_id_assign [simp]: "report_id (assign_report report uid r) = report_id r"
  by (simp add: assign_report_def)

lemma find_map_assign:
  "find (\<lambda>r. report_id r = rid) (map (\<lambda>r. if report_id r = rid then assign_report report uid r else r) xs) =
   map_option (assign_report report uid) (find (\<lambda>r. report_id r = rid) xs)"
  by (induction xs) auto

text \<open>
  Claim C6. Where a report is found under the id, \<open>edit_report\<close> returns it with the
  twelve fields assigned, the row found under the id after the commit is that row, and its
  \<open>operator_id\<close> is the acting user, whoever the operator was before.
\<close>

theorem edit_report_operator:
  "get_report_row s rid = Some r \<Longrightarrow>
     fst (edit_report s rid report uid) = Edited (assign_report report uid r) \<and>
     get_report_row (snd (edit_report s rid report uid)) rid = Some (assign_report report uid r) \<and>
     report_operator_id (assign_report report uid r) = Some uid"
  by (simp add: edit_report_def get_report_row_def find_map_assign) (simp add: assign_report_def)

theorem edit_report_operator_witness:
  "report_operator_id (the (get_report_row edit_db 1)) = Some 2 \<and>
   map_option report_operator_id (get_report_row (snd (edit_report edit_db 1 (mk_report_create ''1'' ''2'') 9)) 1) = Some (Some 9)"
proof -
  have h: "get_report_row edit_db 1 = Some (mk_report 1 ''machine'' (Some 5) (Some 2) (at_midnight 2024 3 3))"
    by (simp add: get_report_row_def edit_db_def empty_db_def mk_report_def)
  show ?thesis
    using edit_report_operator [OF h, of "mk_report_create ''1'' ''2''" 9] h
    by (simp add: mk_report_def)
qed

text \<open>
  Claim C10. Editing an existing report leaves its id and its creation timestamp as they
  were: the row found under the id after the edit has the id and the \<open>date_created\<close> of
  the row found before, the ids and the creation timestamps of the whole report table
  are unchanged, the rows of every other id are untouched, and so are the other tables.
\<close>
theorem edit_report_frame:
  "get_report_row s rid = Some r \<Longrightarrow>
     (\<exists>r'. get_report_row (snd (edit_report s rid report uid)) rid = Some r' \<and>
           report_id r' = report_id r \<and> report_date_created r' = report_date_created r) \<and>
     map report_id (reports (snd (edit_report s rid report uid))) = map report_id (reports s) \<and>
     map report_date_created (reports (snd (edit_report s rid report uid))) =
       map report_date_created (reports s) \<and>
     filter (\<lambda>x. report_id x \<noteq> rid) (reports (snd (edit_report s rid report uid))) =
       filter (\<lambda>x. report_id x \<noteq> rid) (reports s) \<and>
     users (snd (edit_report s rid report uid)) = users s \<and>
     clients (snd (edit_report s rid report uid)) = clients s \<and>
     plants (snd (edit_report s rid report uid)) = plants s \<and>
     machines (snd (edit_report s rid report uid)) = machines s \<and>
     commissions (snd (edit_report s rid report uid)) = commissions s"
proof -
  assume h: "get_report_row s rid = Some r"
  let ?f = "\<lambda>r. if report_id r = rid then assign_report report uid r else r"
  have s': "snd (edit_report s rid report uid) = s\<lparr>reports := map ?f (reports s)\<rparr>"
    using h by (simp add: edit_report_def get_report_row_def)
  have ids: "map report_id (map ?f xs) = map report_id xs" for xs
    by (induction xs) auto
  have dcs: "map report_date_created (map ?f xs) = map report_date_created xs" for xs
    by (induction xs) (auto simp: assign_report_def)
  have others: "filter (\<lambda>x. report_id x \<noteq> rid) (map ?f xs) = filter (\<lambda>x. report_id x \<noteq> rid) xs" for xs
    by (induction xs) auto
  have row: "get_report_row (s\<lparr>reports := map ?f (reports s)\<rparr>) rid = Some (assign_report report uid r)"
    using h by (simp add: get_report_row_def find_map_assign)
  have keep: "report_date_created (assign_report report uid r) = report_date_created r"
    by (simp add: assign_report_def)
  show ?thesis
    unfolding s' using row keep ids dcs others by simp
qed

theorem edit_report_frame_witness:
  "map_option report_id (get_report_row (snd (edit_report edit_db 1 (mk_report_create ''1'' ''2'') 9)) 1) = Some 1 \<and>
   map_option report_date_created (get_report_row (snd (edit_report edit_db 1 (mk_report_create ''1'' ''2'') 9)) 1) =
     Some (at_midnight 2020 1 1) \<and>
   map report_id (reports (snd (edit_report edit_db 1 (mk_report_create ''1'' ''2'') 9))) = [1, 2]"
proof -
  have h: "get_report_row edit_db 1 = Some (mk_report 1 ''machine'' (Some 5) (Some 2) (at_midnight 2024 3 3))"
    by (simp add: get_report_row_def edit_db_def empty_db_def mk_report_def)
  have ids: "map report_id (reports edit_db) = [1, 2]"
    by (simp add: edit_db_def empty_db_def mk_report_def)
  show ?thesis
    using edit_report_frame [OF h, of "mk_report_create ''1'' ''2''" 9] ids
    by (auto simp: mk_report_def)
qed

subsection \<open>delete_user\<close>

text \<open>
  Claim C4. Where the target id is 1, or the target is the acting user, or the row found
  under the target id has the role admin, \<open>delete_user\<close> raises the 403 exception
  (Forbidden) and the store is unchanged. The first two cases ask nothing about the row
  of the target: it may be missing.
\<close>
theorem delete_user_forbidden:
  "uid = 1 \<or> uid = current_user_id \<or>
     (\<exists>u. find (\<lambda>u. user_id u = uid) (users s) = Some u \<and> user_role u = ''admin'') \<Longrightarrow>
   fst (delete_user s uid current_user_id) = Inl (HTTPException 403 ''Non puoi eliminare questo utente'') \<and>
   is_forbidden (HTTPException 403 ''Non puoi eliminare questo utente'') \<and>
   snd (delete_user s uid current_user_id) = s"
  by (auto simp: delete_user_def Let_def is_forbidden_def status_code_def)

theorem delete_user_forbidden_witness:
  "find (\<lambda>u. user_id u = 1) (users empty_db) = None \<and>
   fst (delete_user empty_db 1 2) = Inl (HTTPException 403 ''Non puoi eliminare questo utente'') \<and>
   find (\<lambda>u. user_id u = 9) (users users_db) = None \<and>
   fst (delete_user users_db 9 9) = Inl (HTTPException 403 ''Non puoi eliminare questo utente'') \<and>
   fst (delete_user users_db 3 2) = Inl (HTTPException 403 ''Non puoi eliminare questo utente'') \<and>
   snd (delete_user users_db 3 2) = users_db"
proof -
  have a: "find (\<lambda>u. user_id u = 3) (users users_db) = Some (mk_user 3 ''admin'') \<and>
           user_role (mk_user 3 ''admin'') = ''admin''"
    by (simp add: users_db_def empty_db_def mk_user_def)
  have n1: "find (\<lambda>u. user_id u = 1) (users empty_db) = None"
    by (simp add: empty_db_def)
  have n9: "find (\<lambda>u. user_id u = 9) (users users_db) = None"
    by (simp add: users_db_def empty_db_def mk_user_def)
  show ?thesis
    using delete_user_forbidden [of 1 2 empty_db] delete_user_forbidden [of 9 9 users_db]
          delete_user_forbidden [of 3 2 users_db] a n1 n9
    by blast
qed

subsection \<open>get_months\<close>

text \<open>
  Claim C5. For every store and every pair of filters the strings returned by
  \<open>get_months\<close> are pairwise distinct and ascending in the lexicographic order of
  strings; on a store with reports of February 2023 and January 2024 the result is
  \<open>"01/2024"\<close> followed by \<open>"02/2023"\<close>.
\<close>
theorem get_months_distinct_sorted:
  "distinct (get_months s uid wid) \<and> sorted (get_months s uid wid) \<and>
   get_months months_db None None = [''01/2024'', ''02/2023'']"
proof -
  have "get_months months_db None None = [''01/2024'', ''02/2023'']"
    by code_simp
  then show ?thesis
    by (simp add: get_months_def Let_def)
qed

lemma eq_param_Some: "is_true (eq_param c (Some w)) = (c = Some w)"
  by (cases c) (auto simp: is_true_def eq_param_def sql_eq_def)

lemma filter_retype_operator:
  "filter (\<lambda>r. is_true (eq_param (report_operator_id r) v)) (map (\<lambda>r. r\<lparr>report_type := f r\<rparr>) xs) =
   map (\<lambda>r. r\<lparr>report_type := f r\<rparr>) (filter (\<lambda>r. is_true (eq_param (report_operator_id r) v)) xs)"
  by (induction xs) auto

lemma filter_retype_work:
  "filter (\<lambda>r. is_true (eq_param (report_work_id r) v)) (map (\<lambda>r. r\<lparr>report_type := f r\<rparr>) xs) =
   map (\<lambda>r. r\<lparr>report_type := f r\<rparr>) (filter (\<lambda>r. is_true (eq_param (report_work_id r) v)) xs)"
  by (induction xs) auto

lemma dates_retype:
  "map report_date (map (\<lambda>r. r\<lparr>report_type := f r\<rparr>) xs) = map report_date xs"
  by (induction xs) auto

lemma eq_param_eq: "is_true (eq_param c v) = (c = v)"
  by (cases v; cases c) (auto simp: is_true_def eq_param_def sql_eq_def)

lemma get_months_set:
  "set (get_months s uid wid) =
     (\<lambda>r. strftime_mY (report_date r)) `
       {r \<in> set (reports s). (truthy uid \<longrightarrow> report_operator_id r = uid) \<and>
                              (truthy wid \<longrightarrow> report_work_id r = wid)}"
  by (auto simp: get_months_def Let_def eq_param_eq)

text \<open>
  Claim C9. \<open>get_months\<close> never reads the type of a report: replacing the types of the
  stored reports in any way leaves its result unchanged. For every operator filter and
  every work filter, the months returned are exactly the months of the reports that pass
  the operator filter (where it is set) and whose \<open>work_id\<close> is the filter's value (where
  it is set), commission-typed and machine-typed alike.
\<close>

theorem get_months_ignores_type:
  "get_months (retype f s) uid wid = get_months s uid wid \<and>
   (w \<noteq> 0 \<longrightarrow>
      set (get_months s uid (Some w)) =
        (\<lambda>r. strftime_mY (report_date r)) `
          {r \<in> set (reports s). report_work_id r = Some w \<and>
                                 (truthy uid \<longrightarrow> report_operator_id r = uid)}) \<and>
   set (get_months s uid wid) =
     (\<lambda>r. strftime_mY (report_date r)) `
       {r \<in> set (reports s). (truthy uid \<longrightarrow> report_operator_id r = uid) \<and>
                              (truthy wid \<longrightarrow> report_work_id r = wid)}"
proof (intro conjI)
  have sel: "reports (s\<lparr>reports := xs\<rparr>) = xs" for xs
    by simp
  show "get_months (retype f s) uid wid = get_months s uid wid"
    unfolding get_months_def retype_def Let_def
    by (cases "truthy uid"; cases "truthy wid")
       (simp_all only: if_True if_False filter_retype_operator filter_retype_work dates_retype sel)
next
  show "w \<noteq> 0 \<longrightarrow>
      set (get_months s uid (Some w)) =
        (\<lambda>r. strftime_mY (report_date r)) `
          {r \<in> set (reports s). report_work_id r = Some w \<and>
                                 (truthy uid \<longrightarrow> report_operator_id r = uid)}"
    unfolding get_months_set by (auto simp: truthy_def)
next
  show "set (get_months s uid wid) =
     (\<lambda>r. strftime_mY (report_date r)) `
       {r \<in> set (reports s). (truthy uid \<longrightarrow> report_operator_id r = uid) \<and>
                              (truthy wid \<longrightarrow> report_work_id r = wid)}"
    by (rule get_months_set)
qed

theorem get_months_ignores_type_witness:
  "get_months mixed_db None (Some 5) = [''03/2024'', ''07/2024'', ''12/2024''] \<and>
   get_months mixed_db (Some 2) (Some 5) = [''03/2024'', ''07/2024''] \<and>
   get_months (retype (\<lambda>r. ''commission'') mixed_db) (Some 2) (Some 5) = [''03/2024'', ''07/2024''] \<and>
   map report_type (filter (\<lambda>r. report_work_id r = Some 5 \<and> report_operator_id r = Some 2)
     (reports mixed_db)) = [''commission'', ''machine''] \<and>
   set [''03/2024'', ''07/2024''] =
     (\<lambda>r. strftime_mY (report_date r)) `
       {r \<in> set (reports mixed_db). report_work_id r = Some 5 \<and>
          (truthy (Some 2) \<longrightarrow> report_operator_id r = Some 2)}"
proof -
  have a: "get_months mixed_db None (Some 5) = [''03/2024'', ''07/2024'', ''12/2024'']"
    by code_simp
  have b: "get_months mixed_db (Some 2) (Some 5) = [''03/2024'', ''07/2024'']"
    by code_simp
  have c: "map report_type (filter (\<lambda>r. report_work_id r = Some 5 \<and> report_operator_id r = Some 2)
     (reports mixed_db)) = [''commission'', ''machine'']"
    by code_simp
  have ne: "(5::int) \<noteq> 0"
    by simp
  show ?thesis
    using get_months_ignores_type [of "\<lambda>r. ''commission''" mixed_db "Some 2" "Some 5" 5] a b c ne
    by simp
qed

subsection \<open>The delete operations\<close>

text \<open>
  Four of the reference edges are guarded: a client that exists and is referenced by a
  commission, a plant by a machine, a commission by a commission-typed report, a machine
  by a machine-typed report. Each delete raises the 400 exception (Conflict) and leaves the
  store as it was.
\<close>

lemma delete_client_commission_conflict:
  "find (\<lambda>c. client_id c = cid) (clients s) \<noteq> None \<Longrightarrow> com \<in> set (commissions s) \<Longrightarrow>
   commission_client_id com = Some cid \<Longrightarrow>
   delete_client s cid = (Inl (HTTPException 400 ''Non puoi eliminare questo cliente''), s)"
  by (auto simp: delete_client_def Let_def find_None_iff eq_param_Some)

lemma delete_plant_machine_conflict:
  "find (\<lambda>p. plant_id p = pid) (plants s) \<noteq> None \<Longrightarrow> m \<in> set (machines s) \<Longrightarrow>
   machine_plant_id m = Some pid \<Longrightarrow>
   delete_plant s pid = (Inl (HTTPException 400 ''Non puoi eliminare questo stabilimento''), s)"
  by (auto simp: delete_plant_def Let_def find_None_iff eq_param_Some)

lemma delete_commission_report_conflict:
  "find (\<lambda>c. commission_id c = cid) (commissions s) \<noteq> None \<Longrightarrow> r \<in> set (reports s) \<Longrightarrow>
   report_work_id r = Some cid \<Longrightarrow> report_type r = ''commission'' \<Longrightarrow>
   delete_commission s cid = (Inl (HTTPException 400 ''Non puoi eliminare questa commessa''), s)"
  by (auto simp: delete_commission_def Let_def find_None_iff eq_param_Some)

lemma delete_machine_report_conflict:
  "find (\<lambda>m. machine_id m = mid) (machines s) \<noteq> None \<Longrightarrow> r \<in> set (reports s) \<Longrightarrow>
   report_work_id r = Some mid \<Longrightarrow> report_type r = ''machine'' \<Longrightarrow>
   delete_machine s mid = (Inl (HTTPException 400 ''Non puoi eliminare questa macchina''), s)"
  by (auto simp: delete_machine_def Let_def find_None_iff eq_param_Some)

text \<open>
  Claim C3. The fifth edge is not guarded: \<open>delete_client\<close> probes the commissions only.
  On a store where client 7 owns a plant and no commission, deleting client 7 succeeds,
  the client row is gone, and the plant still carries \<open>client_id = 7\<close>.
\<close>

theorem delete_client_ignores_plants:
  "map client_id (clients plant_owner_db) = [7] \<and>
   map plant_client_id (plants plant_owner_db) = [Some 7] \<and>
   fst (delete_client plant_owner_db 7) = Inr ''Cliente eliminato'' \<and>
   clients (snd (delete_client plant_owner_db 7)) = [] \<and>
   map plant_client_id (plants (snd (delete_client plant_owner_db 7))) = [Some 7]"
  by (simp add: delete_client_def plant_owner_db_def mk_client_def mk_plant_def Let_def)

subsection \<open>get_reports_in_interval\<close>

text \<open>
  Claim C2. The query joins Commission on \<open>work_id\<close> alone. On a store whose only report
  is machine-typed with \<open>work_id = 1\<close>, and which has a commission of id 1, the query
  with every filter disabled returns that machine-typed report.
\<close>

theorem interval_returns_machine_report:
  "map (\<lambda>r. (report_id r, report_type r, report_work_id r)) (reports shared_id_db) =
     [(5, ''machine'', Some 1)] \<and>
   map commission_id (commissions shared_id_db) = [1] \<and>
   map_sum id (map (\<lambda>row. (report_id (ir_report row), report_type (ir_report row))))
     (get_reports_in_interval shared_id_db (Some []) (Some []) (Some 0) (Some 0)) =
     Inr [(5, ''machine'')]"
  by code_simp

lemma interval_joined_work_id:
  "row \<in> set (interval_joined s) \<Longrightarrow> report_work_id (fst (fst (fst row))) \<noteq> None"
  by (auto simp: interval_joined_def inner_join_def is_true_def sql_eq_def split: option.splits)

lemma interval_columns_report: "ir_report (interval_columns row) = fst (fst (fst row))"
  by (cases row) (auto simp: interval_columns_def)

lemma eq_param_None: "is_true (eq_param c None) = (c = None)"
  by (simp add: is_true_def eq_param_def)

lemma filter_work_None:
  "filter (\<lambda>row. is_true (eq_param (report_work_id (ir_report row)) None))
     (map interval_columns (interval_joined s)) = []"
  using interval_joined_work_id [of _ s]
  by (auto simp: filter_empty_conv eq_param_None interval_columns_report)

lemma interval_None_rows:
  "get_reports_in_interval s sd ed None oid = Inr rows \<Longrightarrow> rows = []"
  by (auto simp: get_reports_in_interval_def Let_def filter_work_None split: if_splits sum.splits)

lemma interval_None_empty:
  "get_reports_in_interval s (Some []) (Some []) None oid = Inr []"
  by (simp add: get_reports_in_interval_def Let_def filter_work_None)

lemma interval_start_None:
  "get_reports_in_interval s None ed wid oid = Inl TypeError"
  by (simp add: get_reports_in_interval_def Let_def strptime_arg_def)

lemma interval_end_None_type:
  "sd = Some [] \<or> (\<exists>d. strptime_arg sd = Inr d) \<Longrightarrow>
   get_reports_in_interval s sd None wid oid = Inl TypeError"
  by (auto simp: get_reports_in_interval_def Let_def strptime_arg_def)

lemma interval_end_None_start_error:
  "sd \<noteq> Some [] \<Longrightarrow> strptime_arg sd = Inl e \<Longrightarrow>
   get_reports_in_interval s sd None wid oid = Inl e"
  by (auto simp: get_reports_in_interval_def Let_def)

lemma interval_sentinels:
  "get_reports_in_interval s (Some []) (Some []) (Some 0) (Some 0) =
     Inr (map interval_columns (interval_joined s))"
  by (simp add: get_reports_in_interval_def Let_def)

lemma interval_work_filter:
  "w \<noteq> 0 \<Longrightarrow> get_reports_in_interval s sd ed (Some w) oid = Inr rows \<Longrightarrow> row \<in> set rows \<Longrightarrow>
   report_work_id (ir_report row) = Some w"
  by (auto simp: get_reports_in_interval_def Let_def eq_param_Some split: if_splits sum.splits)

lemma make_date_error: "make_date y mo do = Inl e \<Longrightarrow> e = ValueError"
  by (auto simp: make_date_def split: option.splits if_splits)

lemma strptime_Ymd_error: "strptime_Ymd str = Inl e \<Longrightarrow> e = ValueError"
  by (cases str rule: strptime_Ymd.cases)
     (auto simp: Let_def split: if_splits list.splits dest: make_date_error)

lemma strptime_arg_error: "strptime_arg v = Inl e \<Longrightarrow> e = TypeError \<or> e = ValueError"
  by (auto simp: strptime_arg_def split: option.splits dest: strptime_Ymd_error)

lemma strptime_arg_empty: "strptime_arg (Some []) = Inl ValueError"
  by (simp add: strptime_arg_def)

lemma interval_None_raises:
  "sd = None \<or> ed = None \<Longrightarrow>
   get_reports_in_interval s sd ed wid oid = Inl TypeError \<or>
   get_reports_in_interval s sd ed wid oid = Inl ValueError"
proof (cases "sd = None")
  case True
  then show ?thesis
    by (simp add: interval_start_None)
next
  case False
  assume "sd = None \<or> ed = None"
  with False have ed: "ed = None"
    by blast
  show ?thesis
  proof (cases "strptime_arg sd")
    case (Inl e)
    show ?thesis
    proof (cases "sd = Some []")
      case True
      then show ?thesis
        using interval_end_None_type [of sd s wid oid] ed by simp
    next
      case False
      then show ?thesis
        using interval_end_None_start_error [OF False Inl, of s wid oid] strptime_arg_error [OF Inl] ed
        by auto
    qed
  next
    case (Inr d)
    then show ?thesis
      using interval_end_None_type [of sd s wid oid] ed by auto
  qed
qed

lemma interval_start_filter:
  "strptime_arg sd = Inr d \<Longrightarrow> get_reports_in_interval s sd ed wid oid = Inr rows \<Longrightarrow>
   row \<in> set rows \<Longrightarrow> date_ge d row"
  using strptime_arg_empty
  by (auto simp: get_reports_in_interval_def Let_def split: if_splits sum.splits)

lemma interval_end_filter:
  "strptime_arg ed = Inr d \<Longrightarrow> get_reports_in_interval s sd ed wid oid = Inr rows \<Longrightarrow>
   row \<in> set rows \<Longrightarrow> date_le d row"
  using strptime_arg_empty
  by (auto simp: get_reports_in_interval_def Let_def split: if_splits sum.splits)

lemma interval_joined_operator_id:
  "row \<in> set (interval_joined s) \<Longrightarrow> report_operator_id (fst (fst (fst row))) \<noteq> None"
  by (auto simp: interval_joined_def inner_join_def is_true_def sql_eq_def split: option.splits)

lemma interval_returns:
  "(sd = Some [] \<or> (\<exists>d. strptime_arg sd = Inr d)) \<Longrightarrow>
   (ed = Some [] \<or> (\<exists>d. strptime_arg ed = Inr d)) \<Longrightarrow>
   \<exists>rows. get_reports_in_interval s sd ed wid oid = Inr rows"
  by (auto simp: get_reports_in_interval_def Let_def)

lemma interval_rows:
  assumes "get_reports_in_interval s sd ed wid oid = Inr rows"
  shows "rows =
     filter (\<lambda>row. (wid \<noteq> Some 0 \<longrightarrow> report_work_id (ir_report row) = wid) \<and>
                   (oid \<noteq> Some 0 \<longrightarrow> report_operator_id (ir_report row) = oid) \<and>
                   (\<forall>d. strptime_arg sd = Inr d \<longrightarrow> date_ge d row) \<and>
                   (\<forall>d. strptime_arg ed = Inr d \<longrightarrow> date_le d row))
       (map interval_columns (interval_joined s))"
proof -
  let ?q = "map interval_columns (interval_joined s)"
  let ?W = "\<lambda>row. wid \<noteq> Some 0 \<longrightarrow> report_work_id (ir_report row) = wid"
  let ?O = "\<lambda>row. oid \<noteq> Some 0 \<longrightarrow> report_operator_id (ir_report row) = oid"
  have ids: "(if oid \<noteq> Some 0
              then filter (\<lambda>row. is_true (eq_param (report_operator_id (ir_report row)) oid))
                     (if wid \<noteq> Some 0
                      then filter (\<lambda>row. is_true (eq_param (report_work_id (ir_report row)) wid)) ?q
                      else ?q)
              else (if wid \<noteq> Some 0
                    then filter (\<lambda>row. is_true (eq_param (report_work_id (ir_report row)) wid)) ?q
                    else ?q)) =
             filter (\<lambda>row. ?W row \<and> ?O row) ?q"
    by (simp add: eq_param_eq)
  have empty: "strptime_arg (Some []) = Inl ValueError"
    by (simp add: strptime_arg_def)
  show ?thesis
    using assms unfolding get_reports_in_interval_def Let_def ids
    by (auto simp: empty split: if_splits sum.splits intro!: filter_cong)
qed

lemma interval_operator_filter:
  "n \<noteq> 0 \<Longrightarrow> get_reports_in_interval s sd ed wid (Some n) = Inr rows \<Longrightarrow> row \<in> set rows \<Longrightarrow>
   report_operator_id (ir_report row) = Some n"
  using interval_rows [of s sd ed wid "Some n" rows] by auto

lemma interval_operator_None:
  "get_reports_in_interval s sd ed wid None = Inr rows \<Longrightarrow> rows = []"
proof -
  assume a: "get_reports_in_interval s sd ed wid None = Inr rows"
  have "report_operator_id (ir_report row) \<noteq> None" if "row \<in> set (map interval_columns (interval_joined s))" for row
    using that interval_joined_operator_id [of _ s] by (auto simp: interval_columns_report)
  then show ?thesis
    unfolding interval_rows [OF a] by (auto simp: filter_empty_conv)
qed

text \<open>
  Claim C8, as stated, fails where \<open>end_date\<close> is \<open>None\<close> and \<open>start_date\<close> is a
  non-empty string that is not a date: \<open>start_date\<close> is parsed first, and the call raises
  \<^verbatim>\<open>ValueError\<close>, not \<^verbatim>\<open>TypeError\<close>.
\<close>

theorem interval_end_None_counterexample:
  "get_reports_in_interval shared_id_db (Some ''not-a-date'') None (Some 0) (Some 0) = Inl ValueError \<and>
   get_reports_in_interval shared_id_db (Some ''not-a-date'') None (Some 0) (Some 0) \<noteq> Inl TypeError"
  by (simp add: get_reports_in_interval_def Let_def strptime_arg_def is_digit_def)

text \<open>
  Claim C8, amended. With \<open>work_id = None\<close> a call that returns, returns no rows, and
  with empty date strings it does return. With \<open>start_date = None\<close> the call raises
  \<^verbatim>\<open>TypeError\<close>. With \<open>end_date = None\<close> it raises \<^verbatim>\<open>TypeError\<close> where \<open>start_date\<close> is
  the empty string or parses, and otherwise raises the error of parsing \<open>start_date\<close>;
  with either date \<open>None\<close> the call raises \<^verbatim>\<open>TypeError\<close> or \<^verbatim>\<open>ValueError\<close> and returns
  nothing. With both dates empty and both ids 0 the result is the whole join; a \<open>work_id\<close>
  other than 0 keeps only rows of that \<open>work_id\<close>, an \<open>operator_id\<close> other than 0 keeps
  only rows of that operator, \<open>operator_id = None\<close> keeps none, and a date that parses
  keeps only rows on its side of the bound. The call returns whenever each date is empty
  or parses, and what it returns is the join filtered by exactly the filters whose
  argument is not the sentinel.
\<close>

theorem interval_defaults:
  "(get_reports_in_interval s sd ed None oid = Inr rows \<longrightarrow> rows = []) \<and>
   get_reports_in_interval s (Some []) (Some []) None oid = Inr [] \<and>
   get_reports_in_interval s None ed wid oid = Inl TypeError \<and>
   (sd = Some [] \<or> (\<exists>d. strptime_arg sd = Inr d) \<longrightarrow>
      get_reports_in_interval s sd None wid oid = Inl TypeError) \<and>
   (sd \<noteq> Some [] \<and> strptime_arg sd = Inl e \<longrightarrow>
      get_reports_in_interval s sd None wid oid = Inl e) \<and>
   (sd = None \<or> ed = None \<longrightarrow>
      get_reports_in_interval s sd ed wid oid = Inl TypeError \<or>
      get_reports_in_interval s sd ed wid oid = Inl ValueError) \<and>
   get_reports_in_interval s (Some []) (Some []) (Some 0) (Some 0) =
     Inr (map interval_columns (interval_joined s)) \<and>
   (w \<noteq> 0 \<and> get_reports_in_interval s sd ed (Some w) oid = Inr rows \<longrightarrow>
      (\<forall>row\<in>set rows. report_work_id (ir_report row) = Some w)) \<and>
   (strptime_arg sd = Inr d \<and> get_reports_in_interval s sd ed wid oid = Inr rows \<longrightarrow>
      (\<forall>row\<in>set rows. date_ge d row)) \<and>
   (strptime_arg ed = Inr d \<and> get_reports_in_interval s sd ed wid oid = Inr rows \<longrightarrow>
      (\<forall>row\<in>set rows. date_le d row)) \<and>
   (n \<noteq> 0 \<and> get_reports_in_interval s sd ed wid (Some n) = Inr rows \<longrightarrow>
      (\<forall>row\<in>set rows. report_operator_id (ir_report row) = Some n)) \<and>
   (get_reports_in_interval s sd ed wid None = Inr rows \<longrightarrow> rows = []) \<and>
   ((sd = Some [] \<or> (\<exists>d. strptime_arg sd = Inr d)) \<and>
    (ed = Some [] \<or> (\<exists>d. strptime_arg ed = Inr d)) \<longrightarrow>
      (\<exists>found. get_reports_in_interval s sd ed wid oid = Inr found)) \<and>
   (get_reports_in_interval s sd ed wid oid = Inr rows \<longrightarrow>
      rows =
        filter (\<lambda>row. (wid \<noteq> Some 0 \<longrightarrow> report_work_id (ir_report row) = wid) \<and>
                      (oid \<noteq> Some 0 \<longrightarrow> report_operator_id (ir_report row) = oid) \<and>
                      (\<forall>d. strptime_arg sd = Inr d \<longrightarrow> date_ge d row) \<and>
                      (\<forall>d. strptime_arg ed = Inr d \<longrightarrow> date_le d row))
          (map interval_columns (interval_joined s)))"
proof -
  have old: "(get_reports_in_interval s sd ed None oid = Inr rows \<longrightarrow> rows = []) \<and>
   get_reports_in_interval s (Some []) (Some []) None oid = Inr [] \<and>
   get_reports_in_interval s None ed wid oid = Inl TypeError \<and>
   (sd = Some [] \<or> (\<exists>d. strptime_arg sd = Inr d) \<longrightarrow>
      get_reports_in_interval s sd None wid oid = Inl TypeError) \<and>
   (sd \<noteq> Some [] \<and> strptime_arg sd = Inl e \<longrightarrow>
      get_reports_in_interval s sd None wid oid = Inl e) \<and>
   (sd = None \<or> ed = None \<longrightarrow>
      get_reports_in_interval s sd ed wid oid = Inl TypeError \<or>
      get_reports_in_interval s sd ed wid oid = Inl ValueError) \<and>
   get_reports_in_interval s (Some []) (Some []) (Some 0) (Some 0) =
     Inr (map interval_columns (interval_joined s)) \<and>
   (w \<noteq> 0 \<and> get_reports_in_interval s sd ed (Some w) oid = Inr rows \<longrightarrow>
      (\<forall>row\<in>set rows. report_work_id (ir_report row) = Some w)) \<and>
   (strptime_arg sd = Inr d \<and> get_reports_in_interval s sd ed wid oid = Inr rows \<longrightarrow>
      (\<forall>row\<in>set rows. date_ge d row)) \<and>
   (strptime_arg ed = Inr d \<and> get_reports_in_interval s sd ed wid oid = Inr rows \<longrightarrow>
      (\<forall>row\<in>set rows. date_le d row))"
    using interval_None_rows [of s sd ed oid rows] interval_None_empty [of s oid]
      interval_start_None [of s ed wid oid] interval_end_None_type [of sd s wid oid]
      interval_end_None_start_error [of sd e s wid oid] interval_sentinels [of s]
      interval_work_filter [of w s sd ed oid rows] interval_None_raises [of sd ed s wid oid]
      interval_start_filter [of sd d s ed wid oid rows] interval_end_filter [of ed d s sd wid oid rows]
    by blast
  have new: "(n \<noteq> 0 \<and> get_reports_in_interval s sd ed wid (Some n) = Inr rows \<longrightarrow>
      (\<forall>row\<in>set rows. report_operator_id (ir_report row) = Some n)) \<and>
   (get_reports_in_interval s sd ed wid None = Inr rows \<longrightarrow> rows = []) \<and>
   ((sd = Some [] \<or> (\<exists>d. strptime_arg sd = Inr d)) \<and>
    (ed = Some [] \<or> (\<exists>d. strptime_arg ed = Inr d)) \<longrightarrow>
      (\<exists>found. get_reports_in_interval s sd ed wid oid = Inr found))"
    using interval_operator_filter [of n s sd ed wid rows] interval_operator_None [of s sd ed wid rows]
      interval_returns [of sd ed s wid oid]
    by blast
  have rows: "get_reports_in_interval s sd ed wid oid = Inr rows \<longrightarrow>
      rows =
        filter (\<lambda>row. (wid \<noteq> Some 0 \<longrightarrow> report_work_id (ir_report row) = wid) \<and>
                      (oid \<noteq> Some 0 \<longrightarrow> report_operator_id (ir_report row) = oid) \<and>
                      (\<forall>d. strptime_arg sd = Inr d \<longrightarrow> date_ge d row) \<and>
                      (\<forall>d. strptime_arg ed = Inr d \<longrightarrow> date_le d row))
          (map interval_columns (interval_joined s))"
    using interval_rows [of s sd ed wid oid rows] by (rule impI)
  from old new rows show ?thesis
    by (elim conjE, intro conjI) assumption+
qed

theorem interval_defaults_witness:
  "strptime_arg (Some ''2024-01-01'') = Inr (at_midnight 2024 1 1) \<and>
   get_reports_in_interval shared_id_db (Some ''2024-01-01'') None (Some 1) (Some 0) = Inl TypeError \<and>
   strptime_arg (Some ''not-a-date'') = Inl ValueError \<and>
   get_reports_in_interval shared_id_db (Some ''not-a-date'') None (Some 1) (Some 0) = Inl ValueError \<and>
   get_reports_in_interval shared_id_db (Some ''2024-01-01'') (Some []) None (Some 0) = Inr [] \<and>
   map_sum id (map (\<lambda>row. report_work_id (ir_report row)))
     (get_reports_in_interval shared_id_db (Some ''2024-01-01'') (Some []) (Some 1) (Some 0)) =
     Inr [Some 1] \<and>
   map_sum id (map (\<lambda>row. report_operator_id (ir_report row)))
     (get_reports_in_interval shared_id_db (Some []) (Some []) (Some 0) (Some 2)) = Inr [Some 2] \<and>
   get_reports_in_interval shared_id_db (Some []) (Some []) (Some 0) (Some 99) = Inr [] \<and>
   get_reports_in_interval shared_id_db (Some []) (Some []) (Some 0) None = Inr []"
proof -
  have p1: "strptime_arg (Some ''2024-01-01'') = Inr (at_midnight 2024 1 1)"
    by code_simp
  have p2: "strptime_arg (Some ''not-a-date'') = Inl ValueError"
    by code_simp
  have ne: "Some ''not-a-date'' \<noteq> Some []"
    by simp
  have r1: "map_sum id (map (\<lambda>row. report_work_id (ir_report row)))
     (get_reports_in_interval shared_id_db (Some ''2024-01-01'') (Some []) (Some 1) (Some 0)) =
     Inr [Some 1]"
    by code_simp
  have g: "map_sum id (map (\<lambda>row. report_operator_id (ir_report row)))
     (get_reports_in_interval shared_id_db (Some []) (Some []) (Some 0) (Some 2)) = Inr [Some 2]"
    by code_simp
  have h: "get_reports_in_interval shared_id_db (Some []) (Some []) (Some 0) (Some 99) = Inr []"
    by code_simp
  note end_None = interval_defaults [where s = shared_id_db and sd = "Some ''2024-01-01''"
      and wid = "Some 1" and oid = "Some 0",
      THEN conjunct2, THEN conjunct2, THEN conjunct2, THEN conjunct1]
  have b: "get_reports_in_interval shared_id_db (Some ''2024-01-01'') None (Some 1) (Some 0) = Inl TypeError"
    using end_None p1 by blast
  note start_bad = interval_defaults [where s = shared_id_db and sd = "Some ''not-a-date''"
      and wid = "Some 1" and oid = "Some 0" and e = ValueError,
      THEN conjunct2, THEN conjunct2, THEN conjunct2, THEN conjunct2, THEN conjunct1]
  have d: "get_reports_in_interval shared_id_db (Some ''not-a-date'') None (Some 1) (Some 0) = Inl ValueError"
    using start_bad p2 ne by blast
  note returns_w = interval_defaults [where s = shared_id_db and sd = "Some ''2024-01-01''"
      and ed = "Some []" and wid = None and oid = "Some 0",
      THEN conjunct2, THEN conjunct2, THEN conjunct2, THEN conjunct2, THEN conjunct2, THEN conjunct2,
      THEN conjunct2, THEN conjunct2, THEN conjunct2, THEN conjunct2, THEN conjunct2, THEN conjunct2,
      THEN conjunct1]
  obtain found where f: "get_reports_in_interval shared_id_db (Some ''2024-01-01'') (Some []) None (Some 0) = Inr found"
    using returns_w p1 by blast
  note work_None = interval_defaults [where s = shared_id_db and sd = "Some ''2024-01-01''"
      and ed = "Some []" and oid = "Some 0" and rows = found, THEN conjunct1]
  have e: "get_reports_in_interval shared_id_db (Some ''2024-01-01'') (Some []) None (Some 0) = Inr []"
    using work_None f by blast
  note returns_o = interval_defaults [where s = shared_id_db and sd = "Some []"
      and ed = "Some []" and wid = "Some 0" and oid = None,
      THEN conjunct2, THEN conjunct2, THEN conjunct2, THEN conjunct2, THEN conjunct2, THEN conjunct2,
      THEN conjunct2, THEN conjunct2, THEN conjunct2, THEN conjunct2, THEN conjunct2, THEN conjunct2,
      THEN conjunct1]
  obtain found' where f': "get_reports_in_interval shared_id_db (Some []) (Some []) (Some 0) None = Inr found'"
    using returns_o by blast
  note operator_None = interval_defaults [where s = shared_id_db and sd = "Some []"
      and ed = "Some []" and wid = "Some 0" and rows = found',
      THEN conjunct2, THEN conjunct2, THEN conjunct2, THEN conjunct2, THEN conjunct2, THEN conjunct2,
      THEN conjunct2, THEN conjunct2, THEN conjunct2, THEN conjunct2, THEN conjunct2, THEN conjunct1]
  have i: "get_reports_in_interval shared_id_db (Some []) (Some []) (Some 0) None = Inr []"
    using operator_None f' by blast
  show ?thesis
    by (intro conjI) (rule p1 b p2 d e r1 g h i)+
qed

subsection \<open>get_reports\<close>

lemma inner_join_mem:
  "((l, r) \<in> set (inner_join ls rs on)) = (l \<in> set ls \<and> r \<in> set rs \<and> is_true (on l r))"
  by (auto simp: inner_join_def)

lemma outer_join_mem:
  "((l, ro) \<in> set (outer_join ls rs on)) =
     (l \<in> set ls \<and>
      (case ro of None \<Rightarrow> (\<forall>r\<in>set rs. \<not> is_true (on l r))
       | Some r \<Rightarrow> r \<in> set rs \<and> is_true (on l r)))"
proof -
  have row: "((l, ro) \<in> set (case filter P rs of [] \<Rightarrow> [(l', None)] | m # ms \<Rightarrow> map (\<lambda>r. (l', Some r)) (m # ms))) =
        (l = l' \<and> (case ro of None \<Rightarrow> (\<forall>r\<in>set rs. \<not> P r) | Some r \<Rightarrow> r \<in> set rs \<and> P r))"
    for P l'
  proof (cases "filter P rs")
    case Nil
    then show ?thesis
      by (auto simp: filter_empty_conv split: option.splits)
  next
    case (Cons m ms)
    then have "set (m # ms) = {r \<in> set rs. P r}"
      by (metis set_filter)
    then show ?thesis
      using Cons by (auto split: option.splits)
  qed
  show ?thesis
    unfolding outer_join_def by (auto simp: row)
qed

lemma sql_and_true: "is_true (sql_and a b) = (is_true a \<and> is_true b)"
  by (auto simp: sql_and_def is_true_def)

lemma sql_or_true: "is_true (sql_or a b) = (is_true a \<or> is_true b)"
  by (auto simp: sql_or_def is_true_def)

lemma sql_eq_true: "is_true (sql_eq a (Some y)) = (a = Some y)"
  by (cases a) (auto simp: sql_eq_def is_true_def)

lemma is_true_Some: "is_true (Some b) = b"
  by (simp add: is_true_def)

lemma reports_joined_machine_iff:
  assumes "report_type r = ''machine''"
  shows "((((((r, c), m), u), p), cl) \<in> set (reports_joined s)) =
         (r \<in> set (reports s) \<and> c = None \<and> u \<in> set (users s) \<and>
          report_operator_id r = Some (user_id u) \<and> cl \<in> set (clients s) \<and>
          (\<exists>m'\<in>set (machines s). \<exists>p'\<in>set (plants s). m = Some m' \<and> p = Some p' \<and>
             report_work_id r = Some (machine_id m') \<and>
             machine_plant_id m' = Some (plant_id p') \<and>
             plant_client_id p' = Some (client_id cl)))"
  using assms
  by (auto simp: reports_joined_def Let_def inner_join_mem outer_join_mem sql_and_true sql_or_true
        sql_eq_true is_true_Some col_def split: option.splits)

lemma get_reports_mem:
  "(row \<in> set (get_reports s uid)) =
     (\<exists>j\<in>set (reports_joined s). row = report_columns j \<and>
        (truthy uid \<longrightarrow> report_operator_id (rr_report row) = uid))"
  by (cases uid) (auto simp: get_reports_def Let_def truthy_def eq_param_Some)

lemma report_columns_report: "rr_report (report_columns (((((r, c), m), u), p), cl)) = r"
  by (simp add: report_columns_def)

lemma get_reports_machine_rows:
  "(row \<in> set (get_reports s uid) \<and> report_type (rr_report row) = ''machine'') =
     (\<exists>r\<in>set (reports s). \<exists>m\<in>set (machines s). \<exists>u\<in>set (users s). \<exists>p\<in>set (plants s).
        \<exists>cl\<in>set (clients s).
          report_type r = ''machine'' \<and>
          report_work_id r = Some (machine_id m) \<and>
          report_operator_id r = Some (user_id u) \<and>
          machine_plant_id m = Some (plant_id p) \<and>
          plant_client_id p = Some (client_id cl) \<and>
          (truthy uid \<longrightarrow> report_operator_id r = uid) \<and>
          row = report_columns (((((r, None), Some m), u), Some p), cl))"
  (is "?L = ?R")
proof
  assume l: ?L
  then obtain j where j: "j \<in> set (reports_joined s)" "row = report_columns j"
      and f: "truthy uid \<longrightarrow> report_operator_id (rr_report row) = uid"
    unfolding get_reports_mem by blast
  obtain r c m u p cl where jt: "j = (((((r, c), m), u), p), cl)"
    by (metis surj_pair)
  have rr: "rr_report row = r"
    using j(2) jt by (simp add: report_columns_report)
  with l have ty: "report_type r = ''machine''"
    by simp
  have f': "truthy uid \<longrightarrow> report_operator_id r = uid"
    using f rr by simp
  from j(1) obtain m' p' where h: "r \<in> set (reports s)" "c = None" "u \<in> set (users s)"
      "report_operator_id r = Some (user_id u)" "cl \<in> set (clients s)"
      "m' \<in> set (machines s)" "p' \<in> set (plants s)" "m = Some m'" "p = Some p'"
      "report_work_id r = Some (machine_id m')" "machine_plant_id m' = Some (plant_id p')"
      "plant_client_id p' = Some (client_id cl)"
    unfolding jt reports_joined_machine_iff [OF ty] by blast
  have "row = report_columns (((((r, None), Some m'), u), Some p'), cl)"
    using j(2) jt h(2,8,9) by simp
  then show ?R
    using h ty f' by blast
next
  assume ?R
  then obtain r m u p cl where h: "r \<in> set (reports s)" "m \<in> set (machines s)" "u \<in> set (users s)"
      "p \<in> set (plants s)" "cl \<in> set (clients s)" "report_type r = ''machine''"
      "report_work_id r = Some (machine_id m)" "report_operator_id r = Some (user_id u)"
      "machine_plant_id m = Some (plant_id p)" "plant_client_id p = Some (client_id cl)"
      "truthy uid \<longrightarrow> report_operator_id r = uid"
      "row = report_columns (((((r, None), Some m), u), Some p), cl)"
    by blast
  have "(((((r, None), Some m), u), Some p), cl) \<in> set (reports_joined s)"
    unfolding reports_joined_machine_iff [OF h(6)] using h by blast
  then show ?L
    unfolding get_reports_mem using h(6,11,12) by (auto simp: report_columns_report)
qed

text \<open>
  Claim C1. For every operator filter, the rows of \<open>get_reports\<close> whose report is
  machine-typed are exactly the rows built from a machine-typed report, the machine its
  \<open>work_id\<close> names, the user its \<open>operator_id\<close> names, the plant the machine's
  \<open>plant_id\<close> names and the client the plant's \<open>client_id\<close> names, for the reports that
  pass the operator filter: every such chain gives a row, and every such row carries the
  client of that chain. A machine-typed report none of whose machines has a plant row is
  not in the result, and neither is one none of whose plants has a client row.
\<close>

theorem get_reports_machine_client:
  "((row \<in> set (get_reports s uid) \<and> report_type (rr_report row) = ''machine'') =
     (\<exists>r\<in>set (reports s). \<exists>m\<in>set (machines s). \<exists>u\<in>set (users s). \<exists>p\<in>set (plants s).
        \<exists>cl\<in>set (clients s).
          report_type r = ''machine'' \<and>
          report_work_id r = Some (machine_id m) \<and>
          report_operator_id r = Some (user_id u) \<and>
          machine_plant_id m = Some (plant_id p) \<and>
          plant_client_id p = Some (client_id cl) \<and>
          (truthy uid \<longrightarrow> report_operator_id r = uid) \<and>
          row = report_columns (((((r, None), Some m), u), Some p), cl))) \<and>
   (row \<in> set (get_reports s uid) \<and> report_type (rr_report row) = ''machine'' \<longrightarrow>
      (\<exists>m\<in>set (machines s). \<exists>p\<in>set (plants s). \<exists>cl\<in>set (clients s).
         report_work_id (rr_report row) = Some (machine_id m) \<and>
         machine_plant_id m = Some (plant_id p) \<and>
         plant_client_id p = Some (client_id cl) \<and>
         rr_client_id row = client_id cl \<and> rr_client_name row = client_name cl)) \<and>
   (report_type r = ''machine'' \<and>
    (\<forall>m\<in>set (machines s). report_work_id r = Some (machine_id m) \<longrightarrow>
       (\<forall>p\<in>set (plants s). machine_plant_id m \<noteq> Some (plant_id p))) \<longrightarrow>
      r \<notin> rr_report ` set (get_reports s uid)) \<and>
   (report_type r = ''machine'' \<and>
    (\<forall>m\<in>set (machines s). \<forall>p\<in>set (plants s).
       report_work_id r = Some (machine_id m) \<and> machine_plant_id m = Some (plant_id p) \<longrightarrow>
       (\<forall>cl\<in>set (clients s). plant_client_id p \<noteq> Some (client_id cl))) \<longrightarrow>
      r \<notin> rr_report ` set (get_reports s uid))"
proof -
  have chain: "\<exists>m\<in>set (machines s). \<exists>p\<in>set (plants s). \<exists>cl\<in>set (clients s).
         report_work_id (rr_report x) = Some (machine_id m) \<and>
         machine_plant_id m = Some (plant_id p) \<and>
         plant_client_id p = Some (client_id cl) \<and>
         rr_client_id x = client_id cl \<and> rr_client_name x = client_name cl"
    if x: "x \<in> set (get_reports s uid)" and ty: "report_type (rr_report x) = ''machine''" for x
  proof -
    from x ty obtain r' m u p cl where h: "m \<in> set (machines s)" "p \<in> set (plants s)"
        "cl \<in> set (clients s)" "report_work_id r' = Some (machine_id m)"
        "machine_plant_id m = Some (plant_id p)" "plant_client_id p = Some (client_id cl)"
        "x = report_columns (((((r', None), Some m), u), Some p), cl)"
      using get_reports_machine_rows [of x s uid] by blast
    have cols: "rr_report x = r'" "rr_client_id x = client_id cl" "rr_client_name x = client_name cl"
      using h(7) by (simp_all add: report_columns_def)
    show ?thesis
      unfolding cols using h by blast
  qed
  show ?thesis
  proof (intro conjI impI)
    show "(row \<in> set (get_reports s uid) \<and> report_type (rr_report row) = ''machine'') =
     (\<exists>r\<in>set (reports s). \<exists>m\<in>set (machines s). \<exists>u\<in>set (users s). \<exists>p\<in>set (plants s).
        \<exists>cl\<in>set (clients s).
          report_type r = ''machine'' \<and>
          report_work_id r = Some (machine_id m) \<and>
          report_operator_id r = Some (user_id u) \<and>
          machine_plant_id m = Some (plant_id p) \<and>
          plant_client_id p = Some (client_id cl) \<and>
          (truthy uid \<longrightarrow> report_operator_id r = uid) \<and>
          row = report_columns (((((r, None), Some m), u), Some p), cl))"
      by (rule get_reports_machine_rows)
  next
    assume "row \<in> set (get_reports s uid) \<and> report_type (rr_report row) = ''machine''"
    then show "\<exists>m\<in>set (machines s). \<exists>p\<in>set (plants s). \<exists>cl\<in>set (clients s).
         report_work_id (rr_report row) = Some (machine_id m) \<and>
         machine_plant_id m = Some (plant_id p) \<and>
         plant_client_id p = Some (client_id cl) \<and>
         rr_client_id row = client_id cl \<and> rr_client_name row = client_name cl"
      using chain by blast
  next
    assume "report_type r = ''machine'' \<and>
      (\<forall>m\<in>set (machines s). report_work_id r = Some (machine_id m) \<longrightarrow>
         (\<forall>p\<in>set (plants s). machine_plant_id m \<noteq> Some (plant_id p)))"
    then show "r \<notin> rr_report ` set (get_reports s uid)"
      using chain by blast
  next
    assume "report_type r = ''machine'' \<and>
      (\<forall>m\<in>set (machines s). \<forall>p\<in>set (plants s).
         report_work_id r = Some (machine_id m) \<and> machine_plant_id m = Some (plant_id p) \<longrightarrow>
         (\<forall>cl\<in>set (clients s). plant_client_id p \<noteq> Some (client_id cl)))"
    then show "r \<notin> rr_report ` set (get_reports s uid)"
      using chain by blast
  qed
qed

theorem get_reports_machine_client_witness:
  "report_columns (((((mk_report 1 ''machine'' (Some 3) (Some 2) (at_midnight 2024 1 10), None),
      Some (mk_machine 3 (Some 4))), mk_user 2 ''user''), Some (mk_plant 4 (Some 7))), mk_client 7 ''Acme'')
     \<in> set (get_reports machines_db (Some 2)) \<and>
   map (\<lambda>row. (report_id (rr_report row), rr_client_id row, rr_client_name row))
     (get_reports machines_db (Some 2)) = [(1, 7, ''Acme'')] \<and>
   map (\<lambda>row. (report_id (rr_report row), rr_client_id row, rr_client_name row))
     (get_reports machines_db None) = [(1, 7, ''Acme'')] \<and>
   get_reports machines_db (Some 99) = [] \<and>
   mk_report 2 ''machine'' (Some 8) (Some 2) (at_midnight 2024 2 10)
     \<notin> rr_report ` set (get_reports machines_db (Some 2)) \<and>
   mk_report 3 ''machine'' (Some 9) (Some 2) (at_midnight 2024 3 10)
     \<notin> rr_report ` set (get_reports machines_db None)"
proof -
  let ?r1 = "mk_report 1 ''machine'' (Some 3) (Some 2) (at_midnight 2024 1 10)"
  let ?r2 = "mk_report 2 ''machine'' (Some 8) (Some 2) (at_midnight 2024 2 10)"
  let ?r3 = "mk_report 3 ''machine'' (Some 9) (Some 2) (at_midnight 2024 3 10)"
  let ?m = "mk_machine 3 (Some 4)"
  let ?u = "mk_user 2 ''user''"
  let ?p = "mk_plant 4 (Some 7)"
  let ?cl = "mk_client 7 ''Acme''"
  let ?row = "report_columns (((((?r1, None), Some ?m), ?u), Some ?p), ?cl)"
  have mem: "?r1 \<in> set (reports machines_db)" "?m \<in> set (machines machines_db)"
      "?u \<in> set (users machines_db)" "?p \<in> set (plants machines_db)"
      "?cl \<in> set (clients machines_db)"
    by (simp_all add: machines_db_def)
  have eqs: "report_type ?r1 = ''machine''" "report_work_id ?r1 = Some (machine_id ?m)"
      "report_operator_id ?r1 = Some (user_id ?u)" "machine_plant_id ?m = Some (plant_id ?p)"
      "plant_client_id ?p = Some (client_id ?cl)" "report_operator_id ?r1 = Some 2"
    by (simp_all add: mk_report_def mk_machine_def mk_user_def mk_plant_def mk_client_def)
  have chain: "\<exists>r\<in>set (reports machines_db). \<exists>m\<in>set (machines machines_db).
      \<exists>u\<in>set (users machines_db). \<exists>p\<in>set (plants machines_db). \<exists>cl\<in>set (clients machines_db).
        report_type r = ''machine'' \<and> report_work_id r = Some (machine_id m) \<and>
        report_operator_id r = Some (user_id u) \<and> machine_plant_id m = Some (plant_id p) \<and>
        plant_client_id p = Some (client_id cl) \<and>
        (truthy (Some 2) \<longrightarrow> report_operator_id r = Some 2) \<and>
        ?row = report_columns (((((r, None), Some m), u), Some p), cl)"
    using mem eqs by blast
  have rows2: "map (\<lambda>row. (report_id (rr_report row), rr_client_id row, rr_client_name row))
     (get_reports machines_db (Some 2)) = [(1, 7, ''Acme'')]"
    by code_simp
  have rows0: "map (\<lambda>row. (report_id (rr_report row), rr_client_id row, rr_client_name row))
     (get_reports machines_db None) = [(1, 7, ''Acme'')]"
    by code_simp
  have rows99: "get_reports machines_db (Some 99) = []"
    by code_simp
  have h2: "report_type ?r2 = ''machine'' \<and>
    (\<forall>m\<in>set (machines machines_db). report_work_id ?r2 = Some (machine_id m) \<longrightarrow>
       (\<forall>p\<in>set (plants machines_db). machine_plant_id m \<noteq> Some (plant_id p)))"
    by (simp add: machines_db_def mk_report_def mk_machine_def mk_plant_def)
  have h3: "report_type ?r3 = ''machine'' \<and>
    (\<forall>m\<in>set (machines machines_db). \<forall>p\<in>set (plants machines_db).
       report_work_id ?r3 = Some (machine_id m) \<and> machine_plant_id m = Some (plant_id p) \<longrightarrow>
       (\<forall>cl\<in>set (clients machines_db). plant_client_id p \<noteq> Some (client_id cl)))"
    by (simp add: machines_db_def mk_report_def mk_machine_def mk_plant_def mk_client_def)
  note rows_iff = get_reports_machine_client [where s = machines_db and uid = "Some 2"
      and row = ?row, THEN conjunct1]
  have a: "?row \<in> set (get_reports machines_db (Some 2))"
    using rows_iff chain by blast
  note no_plant = get_reports_machine_client [where s = machines_db and uid = "Some 2"
      and r = ?r2, THEN conjunct2, THEN conjunct2, THEN conjunct1]
  have x2: "?r2 \<notin> rr_report ` set (get_reports machines_db (Some 2))"
    using no_plant h2 by blast
  note no_client = get_reports_machine_client [where s = machines_db and uid = None
      and r = ?r3, THEN conjunct2, THEN conjunct2, THEN conjunct2]
  have x3: "?r3 \<notin> rr_report ` set (get_reports machines_db None)"
    using no_client h3 by blast
  show ?thesis
    by (intro conjI) (rule a rows2 rows0 rows99 x2 x3)+
qed

end
